theory Spec2Isabelle
  imports Complex_Main "HOL-Library.Monad_Syntax"
begin

section \<open>JavaScript values\<close>

text \<open>
  The program computes with JavaScript numbers. They are modelled as mathematical reals:
  the rounding of IEEE doubles to 53 bits is outside this model, but not the rounding of a
  store into a Float32Array (see \<open>fround\<close>).

  In \<open>getFingerCurlAngle\<close>, whose result the program compares with thresholds and which
  guards against a zero magnitude and clamps a cosine, the range of a double is part of
  the model: every arithmetic result goes through \<open>dbl\<close>, which turns a real at or above
  the overflow threshold \<open>2^1024 - 2^970\<close> into an infinity and a real of magnitude at
  most \<open>2^-1075\<close>, half the smallest positive double, into zero. The type \<open>jsnum\<close> holds
  such a result: a number, an infinity, or NaN (of \<open>0 / 0\<close>, of an infinity divided by an
  infinity, of \<open>Math.acos\<close> outside \<open>[-1, 1]\<close>). A comparison with NaN is false, as in
  JavaScript. Zero has one sign in the model: the divisor in \<open>getFingerCurlAngle\<close> is a
  product of square roots, never the negative zero.

  A thrown \<open>TypeError\<close> (a property read on \<open>undefined\<close>) is the value \<open>None\<close> of the
  functions below that return an option.
\<close>

datatype jsnum = Num real | PosInf | NegInf | NaN

definition js_inf_of :: "real \<Rightarrow> jsnum" where
  \<comment> \<open>the infinity of the sign of \<open>s\<close>, NaN for no sign\<close>
  "js_inf_of s = (if 0 < s then PosInf else if s < 0 then NegInf else NaN)"

definition flush :: "real \<Rightarrow> real" where
  \<comment> \<open>underflow: a magnitude of at most half the smallest positive double rounds to zero\<close>
  "flush r = (if \<bar>r\<bar> \<le> 1 / 2 ^ 1075 then 0 else r)"

definition dbl :: "real \<Rightarrow> jsnum" where
  \<comment> \<open>the double of an exact result: an infinity from \<open>2^1024 - 2^970\<close> on\<close>
  "dbl r = (if 2 ^ 1024 - 2 ^ 970 \<le> \<bar>r\<bar> then js_inf_of r else Num (flush r))"

fun jsgn :: "jsnum \<Rightarrow> real" where
  "jsgn (Num a) = sgn a"
| "jsgn PosInf = 1"
| "jsgn NegInf = - 1"
| "jsgn NaN = 0"

fun js_times :: "jsnum \<Rightarrow> jsnum \<Rightarrow> jsnum" where
  \<comment> \<open>\<open>p * q\<close>: an infinity times zero is NaN\<close>
  "js_times (Num a) (Num b) = dbl (a * b)"
| "js_times NaN y = NaN"
| "js_times x NaN = NaN"
| "js_times x y = js_inf_of (jsgn x * jsgn y)"

fun js_plus :: "jsnum \<Rightarrow> jsnum \<Rightarrow> jsnum" where
  \<comment> \<open>\<open>p + q\<close>: the sum of the two opposite infinities is NaN\<close>
  "js_plus (Num a) (Num b) = dbl (a + b)"
| "js_plus NaN y = NaN"
| "js_plus x NaN = NaN"
| "js_plus PosInf NegInf = NaN"
| "js_plus NegInf PosInf = NaN"
| "js_plus PosInf y = PosInf"
| "js_plus NegInf y = NegInf"
| "js_plus x PosInf = PosInf"
| "js_plus x NegInf = NegInf"

fun js_sqrt :: "jsnum \<Rightarrow> jsnum" where
  \<comment> \<open>\<open>Math.sqrt(q)\<close>\<close>
  "js_sqrt (Num a) = (if a < 0 then NaN else Num (sqrt a))"
| "js_sqrt PosInf = PosInf"
| "js_sqrt NegInf = NaN"
| "js_sqrt NaN = NaN"

fun js_quot :: "jsnum \<Rightarrow> jsnum \<Rightarrow> jsnum" where
  \<comment> \<open>\<open>p / q\<close> for a divisor that is never the negative zero: \<open>0 / 0\<close> and an infinity
      divided by an infinity are NaN\<close>
  "js_quot (Num a) (Num b) = (if b \<noteq> 0 then dbl (a / b) else js_inf_of a)"
| "js_quot NaN y = NaN"
| "js_quot x NaN = NaN"
| "js_quot (Num a) y = Num 0"
| "js_quot PosInf (Num b) = (if 0 \<le> b then PosInf else NegInf)"
| "js_quot NegInf (Num b) = (if 0 \<le> b then NegInf else PosInf)"
| "js_quot x y = NaN"

fun js_min :: "real \<Rightarrow> jsnum \<Rightarrow> jsnum" where
  \<comment> \<open>\<open>Math.min(a, q)\<close>\<close>
  "js_min a (Num b) = Num (min a b)"
| "js_min a PosInf = Num a"
| "js_min a NegInf = NegInf"
| "js_min a NaN = NaN"

fun js_max :: "real \<Rightarrow> jsnum \<Rightarrow> jsnum" where
  \<comment> \<open>\<open>Math.max(a, q)\<close>\<close>
  "js_max a (Num b) = Num (max a b)"
| "js_max a PosInf = PosInf"
| "js_max a NegInf = Num a"
| "js_max a NaN = NaN"

fun js_acos :: "jsnum \<Rightarrow> jsnum" where
  \<comment> \<open>\<open>Math.acos(q)\<close>: NaN outside \<open>[-1, 1]\<close>\<close>
  "js_acos (Num c) = (if -1 \<le> c \<and> c \<le> 1 then Num (arccos c) else NaN)"
| "js_acos PosInf = NaN"
| "js_acos NegInf = NaN"
| "js_acos NaN = NaN"

fun js_gt :: "jsnum \<Rightarrow> real \<Rightarrow> bool" where
  \<comment> \<open>\<open>q > b\<close>\<close>
  "js_gt (Num a) b = (a > b)"
| "js_gt PosInf b = True"
| "js_gt NegInf b = False"
| "js_gt NaN b = False"

fun js_lt :: "jsnum \<Rightarrow> real \<Rightarrow> bool" where
  \<comment> \<open>\<open>q < b\<close>\<close>
  "js_lt (Num a) b = (a < b)"
| "js_lt PosInf b = False"
| "js_lt NegInf b = True"
| "js_lt NaN b = False"

definition js_at :: "'a list \<Rightarrow> int \<Rightarrow> 'a option" where
  \<comment> \<open>\<open>xs[i]\<close> on a JavaScript array: \<open>undefined\<close> (here \<open>None\<close>) outside \<open>0 .. length - 1\<close>\<close>
  "js_at xs i = (if 0 \<le> i \<and> i < int (length xs) then Some (xs ! nat i) else None)"


section \<open>GestureDetector\<close>

text \<open>
  A MediaPipe landmark is an object with numeric \<open>x\<close> and \<open>y\<close> and a \<open>z\<close> that the code
  reads as \<open>(p.z || 0)\<close>: a missing \<open>z\<close> counts as 0.
\<close>

record landmark =
  lm_x :: real
  lm_y :: real
  lm_z :: "real option"

text \<open>
  The gesture type is a string in the source. The detector produces \<open>NONE\<close>, \<open>PINCH\<close>,
  \<open>PEACE\<close> and \<open>FULL_OPEN\<close>; \<open>THUMB_UP\<close> is a further string that the atom and galaxy
  modes compare with.
\<close>

datatype gesture = NONE | PINCH | PEACE | FULL_OPEN | THUMB_UP

record gesture_result =
  gtype :: gesture
  confidence :: real

text \<open>The mutable fields of a \<open>GestureDetector\<close> (the thresholds are constants).\<close>

record detector =
  lastGesture :: gesture
  gestureStableCount :: nat
  frameCount :: nat

definition PINCH_THRESHOLD :: real where "PINCH_THRESHOLD = 0.08"
definition EXTENDED_ANGLE_THRESHOLD :: real where "EXTENDED_ANGLE_THRESHOLD = 165"
definition CURL_ANGLE_THRESHOLD :: real where "CURL_ANGLE_THRESHOLD = 150"
definition PEACE_V_SPREAD_RATIO :: real where "PEACE_V_SPREAD_RATIO = 0.35"
definition PEACE_V_MIN_SPREAD :: real where "PEACE_V_MIN_SPREAD = 0.025"
definition FULL_OPEN_SPREAD_THRESHOLD :: real where "FULL_OPEN_SPREAD_THRESHOLD = 0.15"
definition STABLE_FRAMES :: nat where "STABLE_FRAMES = 2"

definition new_detector :: detector where
  \<comment> \<open>the constructor; \<open>reset()\<close> restores the first two fields to these values\<close>
  "new_detector = \<lparr>lastGesture = NONE, gestureStableCount = 0, frameCount = 0\<rparr>"

definition reset :: "detector \<Rightarrow> detector" where
  "reset d = d\<lparr>lastGesture := NONE, gestureStableCount := 0\<rparr>"

definition z_or_0 :: "landmark \<Rightarrow> real" where
  "z_or_0 p = (case lm_z p of None \<Rightarrow> 0 | Some v \<Rightarrow> v)"

definition calculateDistance :: "landmark \<Rightarrow> landmark \<Rightarrow> real" where
  "calculateDistance point1 point2 =
     (let dx = lm_x point1 - lm_x point2;
          dy = lm_y point1 - lm_y point2;
          dz = z_or_0 point1 - z_or_0 point2
      in sqrt (dx * dx + dy * dy + dz * dz))"

type_synonym jvec = "jsnum \<times> jsnum \<times> jsnum"

definition jsub :: "landmark \<Rightarrow> landmark \<Rightarrow> jvec" where
  \<comment> \<open>\<open>{x: a.x - b.x, y: a.y - b.y, z: (a.z || 0) - (b.z || 0)}\<close>\<close>
  "jsub a b = (dbl (lm_x a - lm_x b), dbl (lm_y a - lm_y b), dbl (z_or_0 a - z_or_0 b))"

fun jdot :: "jvec \<Rightarrow> jvec \<Rightarrow> jsnum" where
  \<comment> \<open>\<open>v.x * w.x + v.y * w.y + v.z * w.z\<close>, summed from the left\<close>
  "jdot (x1, y1, z1) (x2, y2, z2) =
     js_plus (js_plus (js_times x1 x2) (js_times y1 y2)) (js_times z1 z2)"

definition jmag :: "jvec \<Rightarrow> jsnum" where
  \<comment> \<open>\<open>Math.sqrt(v.x * v.x + v.y * v.y + v.z * v.z)\<close>\<close>
  "jmag v = js_sqrt (jdot v v)"

definition curlAngle :: "landmark \<Rightarrow> landmark \<Rightarrow> landmark \<Rightarrow> jsnum" where
  \<comment> \<open>the body of \<open>getFingerCurlAngle\<close> once the three joints are read\<close>
  "curlAngle mcp pip dip =
     (let v1 = jsub mcp pip;
          v2 = jsub dip pip;
          dot = jdot v1 v2;
          mag1 = jmag v1;
          mag2 = jmag v2
      in if mag1 = Num 0 \<or> mag2 = Num 0 then Num 180
         else let cosAngle = js_max (-1) (js_min 1 (js_quot dot (js_times mag1 mag2)))
              in js_times (js_acos cosAngle) (Num (180 / pi)))"

definition getFingerCurlAngle :: "landmark list \<Rightarrow> int \<Rightarrow> jsnum option" where
  "getFingerCurlAngle landmarks tipIndex = do {
     mcp \<leftarrow> js_at landmarks (tipIndex - 3);
     pip \<leftarrow> js_at landmarks (tipIndex - 2);
     dip \<leftarrow> js_at landmarks (tipIndex - 1);
     Some (curlAngle mcp pip dip)
   }"

definition isFingerExtended :: "landmark list \<Rightarrow> int \<Rightarrow> bool option" where
  "isFingerExtended landmarks tipIndex = do {
     tip \<leftarrow> js_at landmarks tipIndex;
     mcp \<leftarrow> js_at landmarks (tipIndex - 3);
     let tipToMcp = calculateDistance tip mcp;
     dip \<leftarrow> js_at landmarks (tipIndex - 1);
     let dipToMcp = calculateDistance dip mcp;
     angle \<leftarrow> getFingerCurlAngle landmarks tipIndex;
     Some (tipToMcp > dipToMcp * 1.1 \<or> js_gt angle EXTENDED_ANGLE_THRESHOLD)
   }"

definition isFingerCurled :: "landmark list \<Rightarrow> int \<Rightarrow> bool option" where
  "isFingerCurled landmarks tipIndex = do {
     tip \<leftarrow> js_at landmarks tipIndex;
     mcp \<leftarrow> js_at landmarks (tipIndex - 3);
     let tipToMcp = calculateDistance tip mcp;
     dip \<leftarrow> js_at landmarks (tipIndex - 1);
     let dipToMcp = calculateDistance dip mcp;
     angle \<leftarrow> getFingerCurlAngle landmarks tipIndex;
     Some (tipToMcp < dipToMcp * 1.05 \<or> js_lt angle CURL_ANGLE_THRESHOLD)
   }"

definition isThumbExtended :: "landmark list \<Rightarrow> bool option" where
  "isThumbExtended landmarks = do {
     thumbTip \<leftarrow> js_at landmarks 4;
     wrist \<leftarrow> js_at landmarks 0;
     let tipToWrist = calculateDistance thumbTip wrist;
     thumbMcp \<leftarrow> js_at landmarks 2;
     let mcpToWrist = calculateDistance thumbMcp wrist;
     Some (tipToWrist > mcpToWrist * 1.3)
   }"

definition getPalmWidth :: "landmark list \<Rightarrow> real option" where
  "getPalmWidth landmarks = do {
     indexMcp \<leftarrow> js_at landmarks 5;
     pinkyMcp \<leftarrow> js_at landmarks 17;
     Some (calculateDistance indexMcp pinkyMcp)
   }"

definition isPinch :: "landmark list \<Rightarrow> bool option" where
  "isPinch landmarks = do {
     thumbExtended \<leftarrow> isThumbExtended landmarks;
     indexExtended \<leftarrow> isFingerExtended landmarks 8;
     if \<not> thumbExtended \<or> \<not> indexExtended then Some False
     else do {
       thumbTip \<leftarrow> js_at landmarks 4;
       indexTip \<leftarrow> js_at landmarks 8;
       let distance = calculateDistance thumbTip indexTip;
       Some (distance < PINCH_THRESHOLD)
     }
   }"

definition isPeaceSign :: "landmark list \<Rightarrow> bool option" where
  "isPeaceSign landmarks = do {
     indexExtended \<leftarrow> isFingerExtended landmarks 8;
     middleExtended \<leftarrow> isFingerExtended landmarks 12;
     thumbExtended \<leftarrow> isThumbExtended landmarks;
     ringCurled \<leftarrow> isFingerCurled landmarks 16;
     pinkyCurled \<leftarrow> isFingerCurled landmarks 20;
     indexTip \<leftarrow> js_at landmarks 8;
     middleTip \<leftarrow> js_at landmarks 12;
     let fingerGap = calculateDistance indexTip middleTip;
     palmWidth \<leftarrow> getPalmWidth landmarks;
     let requiredGap = max PEACE_V_MIN_SPREAD (palmWidth * PEACE_V_SPREAD_RATIO);
     Some (indexExtended \<and> middleExtended \<and> ringCurled \<and> pinkyCurled \<and> fingerGap > requiredGap)
   }"

definition isFullHandOpen :: "landmark list \<Rightarrow> bool option" where
  "isFullHandOpen landmarks = do {
     e8 \<leftarrow> isFingerExtended landmarks 8;
     e12 \<leftarrow> isFingerExtended landmarks 12;
     e16 \<leftarrow> isFingerExtended landmarks 16;
     e20 \<leftarrow> isFingerExtended landmarks 20;
     let fingersExtended = [e8, e12, e16, e20];
     thumbExtended \<leftarrow> isThumbExtended landmarks;
     palmWidth \<leftarrow> getPalmWidth landmarks;
     let spreadWide = (palmWidth > FULL_OPEN_SPREAD_THRESHOLD);
     Some (list_all (\<lambda>e. e) fingersExtended \<and> thumbExtended \<and> spreadWide)
   }"

definition rawGesture :: "landmark list \<Rightarrow> (gesture \<times> real) option" where
  \<comment> \<open>the priority chain of \<open>detect\<close>: the raw gesture of the frame and its confidence\<close>
  "rawGesture landmarks = do {
     pinch \<leftarrow> isPinch landmarks;
     if pinch then Some (PINCH, 0.9)
     else do {
       peace \<leftarrow> isPeaceSign landmarks;
       if peace then Some (PEACE, 0.85)
       else do {
         fullOpen \<leftarrow> isFullHandOpen landmarks;
         if fullOpen then Some (FULL_OPEN, 0.9) else Some (NONE, 0)
       }
     }
   }"

definition debounce :: "gesture \<Rightarrow> real \<Rightarrow> detector \<Rightarrow> gesture_result \<times> detector" where
  \<comment> \<open>the stability check that ends \<open>detect\<close>\<close>
  "debounce g c d =
     (let d' = (if g = lastGesture d
                then d\<lparr>gestureStableCount := gestureStableCount d + 1\<rparr>
                else d\<lparr>gestureStableCount := 0, lastGesture := g\<rparr>)
      in if gestureStableCount d' \<ge> STABLE_FRAMES
         then (\<lparr>gtype = g, confidence = c\<rparr>, d')
         else (\<lparr>gtype = NONE, confidence = 0\<rparr>, d'))"

definition detect :: "landmark list option \<Rightarrow> detector \<Rightarrow> (gesture_result \<times> detector) option" where
  \<comment> \<open>\<open>landmarks\<close> is \<open>None\<close> for \<open>null\<close>; the debug output to the console is left out\<close>
  "detect landmarks d =
     (case landmarks of
        None \<Rightarrow> Some (\<lparr>gtype = NONE, confidence = 0\<rparr>, d)
      | Some lms \<Rightarrow>
          if length lms \<noteq> 21 then Some (\<lparr>gtype = NONE, confidence = 0\<rparr>, d)
          else do {
            thumbTip \<leftarrow> js_at lms 4;
            indexTip \<leftarrow> js_at lms 8;
            let pinchDist = calculateDistance thumbTip indexTip;
            f0 \<leftarrow> isFingerExtended lms 8;
            f1 \<leftarrow> isFingerExtended lms 12;
            f2 \<leftarrow> isFingerExtended lms 16;
            f3 \<leftarrow> isFingerExtended lms 20;
            thumbExt \<leftarrow> isThumbExtended lms;
            palmWidth \<leftarrow> getPalmWidth lms;
            let d1 = d\<lparr>frameCount := frameCount d + 1\<rparr>;
            (g, c) \<leftarrow> rawGesture lms;
            Some (debounce g c d1)
          })"

fun detect_frames ::
  "landmark list option list \<Rightarrow> detector \<Rightarrow> (gesture_result list \<times> detector) option" where
  \<comment> \<open>one call of \<open>detect\<close> per frame, in order, on the same detector: the results of the calls\<close>
  "detect_frames [] d = Some ([], d)"
| "detect_frames (f # fs) d =
     (case detect f d of
        None \<Rightarrow> None
      | Some (r, d') \<Rightarrow>
          (case detect_frames fs d' of
             None \<Rightarrow> None
           | Some (rs, d'') \<Rightarrow> Some (r # rs, d'')))"


section \<open>Vectors\<close>

text \<open>
  \<open>THREE.Vector3\<close>, a mutable object in the source, is a value here; every method the
  program calls on it is a function that returns the new vector. The arithmetic is that of
  three.js: \<open>normalize()\<close> (here \<open>vnormalize\<close>) is \<open>divideScalar(length() || 1)\<close> and \<open>divideScalar(s)\<close> is
  \<open>multiplyScalar(1 / s)\<close>, so the zero vector stays zero.
\<close>

record vec3 =
  vx :: real
  vy :: real
  vz :: real

definition Vector3 :: "real \<Rightarrow> real \<Rightarrow> real \<Rightarrow> vec3" where
  "Vector3 a b c = \<lparr>vx = a, vy = b, vz = c\<rparr>"

definition subVectors :: "vec3 \<Rightarrow> vec3 \<Rightarrow> vec3" where
  "subVectors a b = Vector3 (vx a - vx b) (vy a - vy b) (vz a - vz b)"

definition vadd :: "vec3 \<Rightarrow> vec3 \<Rightarrow> vec3" where
  \<comment> \<open>\<open>a.add(b)\<close>\<close>
  "vadd a b = Vector3 (vx a + vx b) (vy a + vy b) (vz a + vz b)"

definition multiplyScalar :: "vec3 \<Rightarrow> real \<Rightarrow> vec3" where
  "multiplyScalar v s = Vector3 (vx v * s) (vy v * s) (vz v * s)"

definition vlength :: "vec3 \<Rightarrow> real" where
  \<comment> \<open>\<open>v.length()\<close>\<close>
  "vlength v = sqrt (vx v * vx v + vy v * vy v + vz v * vz v)"

definition vnormalize :: "vec3 \<Rightarrow> vec3" where
  \<comment> \<open>\<open>v.normalize()\<close>\<close>
  "vnormalize v = multiplyScalar v (1 / (if vlength v = 0 then 1 else vlength v))"





section \<open>Physics\<close>

text \<open>
  \<open>Math.random()\<close> is an input of the model: a function that draws random numbers takes
  the three values it draws (each in \<open>[0, 1)\<close>) as a triple.
\<close>

type_synonym rand3 = "real \<times> real \<times> real"

definition attractionForce :: "vec3 \<Rightarrow> vec3 \<Rightarrow> real \<Rightarrow> vec3" where
  "attractionForce position target strength =
     (let direction = subVectors target position;
          distance = vlength direction
      in if distance < 0.1 then Vector3 0 0 0
         else let forceMagnitude = strength / (distance * distance + 0.1)
              in multiplyScalar (vnormalize direction) forceMagnitude)"

definition repulsionForce :: "vec3 \<Rightarrow> vec3 \<Rightarrow> real \<Rightarrow> rand3 \<Rightarrow> vec3" where
  "repulsionForce position target strength rnd =
     (let direction = subVectors position target;
          distance = vlength direction
      in if distance < 0.1
         then (case rnd of (r1, r2, r3) \<Rightarrow>
                 multiplyScalar (Vector3 (r1 - 0.5) (r2 - 0.5) (r3 - 0.5)) (strength * 10))
         else let forceMagnitude = strength / (distance + 0.1)
              in multiplyScalar (vnormalize direction) forceMagnitude)"

definition orbitalForce :: "vec3 \<Rightarrow> vec3 \<Rightarrow> real \<Rightarrow> vec3" where
  "orbitalForce position center speed =
     (let toCenter = subVectors center position;
          distance = vlength toCenter
      in if distance < 0.1 then Vector3 0 0 0
         else let tangent = vnormalize (Vector3 (- vy toCenter) (vx toCenter) 0)
              in multiplyScalar tangent speed)"


definition limitSpeed :: "vec3 \<Rightarrow> real \<Rightarrow> vec3" where
  "limitSpeed velocity maxSpeed =
     (let speed = vlength velocity
      in if speed > maxSpeed then multiplyScalar (vnormalize velocity) maxSpeed else velocity)"

definition randomDrift :: "real \<Rightarrow> rand3 \<Rightarrow> vec3" where
  "randomDrift strength rnd =
     (case rnd of (r1, r2, r3) \<Rightarrow>
        Vector3 ((r1 - 0.5) * strength) ((r2 - 0.5) * strength) ((r3 - 0.5) * strength))"

definition screenToWorld :: "real \<Rightarrow> real \<Rightarrow> real \<Rightarrow> vec3" where
  "screenToWorld x y z =
     (let worldX = (x - 0.5) * 2 * 20;
          worldY = - (y - 0.5) * 2 * 15
      in Vector3 worldX worldY z)"


section \<open>ParticleSystem\<close>

text \<open>
  The particle buffers: \<open>positions\<close> and \<open>customColor\<close> are the flat typed arrays of the
  geometry (three numbers per particle), \<open>sizes\<close> the typed array of the \<open>size\<close>
  attribute, \<open>velocities\<close> the JavaScript array of one vector per particle, \<open>uTime\<close> the
  uniform of the material. What is stored in a typed array is rounded to a 32-bit float;
  the numbers of the velocities are doubles, taken as reals. The constructor makes \<open>positions\<close> and \<open>customColor\<close> of
  length \<open>3 * particleCount\<close> and \<open>sizes\<close>, \<open>velocities\<close> and \<open>originalPositions\<close> of
  length \<open>particleCount\<close>.
\<close>

record particle_system =
  particleCount :: nat
  positions :: "real list"
  customColor :: "real list"
  sizes :: "real list"
  velocities :: "vec3 list"
  originalPositions :: "vec3 list"
  uTime :: real

definition ta_get :: "real list \<Rightarrow> nat \<Rightarrow> real option" where
  \<comment> \<open>a read of a typed array: \<open>undefined\<close> (here \<open>None\<close>) past its end\<close>
  "ta_get xs i = (if i < length xs then Some (xs ! i) else None)"






definition Vector3_of :: "real option \<Rightarrow> real option \<Rightarrow> real option \<Rightarrow> vec3" where
  \<comment> \<open>\<open>new THREE.Vector3(a, b, c)\<close>: an \<open>undefined\<close> argument takes the default 0\<close>
  "Vector3_of a b c =
     Vector3 (case a of None \<Rightarrow> 0 | Some v \<Rightarrow> v)
             (case b of None \<Rightarrow> 0 | Some v \<Rightarrow> v)
             (case c of None \<Rightarrow> 0 | Some v \<Rightarrow> v)"

definition getPosition :: "particle_system \<Rightarrow> nat \<Rightarrow> vec3" where
  "getPosition ps index =
     (let i3 = index * 3
      in Vector3_of (ta_get (positions ps) i3) (ta_get (positions ps) (i3 + 1))
           (ta_get (positions ps) (i3 + 2)))"

fun for_each :: "nat list \<Rightarrow> (nat \<Rightarrow> 's \<Rightarrow> 's option) \<Rightarrow> 's \<Rightarrow> 's option" where
  \<comment> \<open>a \<open>for\<close> loop over the indices, in order; it stops at the first exception\<close>
  "for_each [] body s = Some s"
| "for_each (i # is) body s =
     (case body i s of None \<Rightarrow> None | Some s' \<Rightarrow> for_each is body s')"






definition applyForce_particle ::
  "(vec3 \<Rightarrow> nat \<Rightarrow> vec3 option) \<Rightarrow> nat \<Rightarrow> particle_system \<Rightarrow> particle_system option" where
  \<comment> \<open>the body of the loop of \<open>applyForce\<close>; a force function returns \<open>None\<close> for \<open>null\<close>\<close>
  "applyForce_particle forceFunction i ps =
     (let i3 = i * 3;
          position = Vector3_of (ta_get (positions ps) i3) (ta_get (positions ps) (i3 + 1))
                       (ta_get (positions ps) (i3 + 2))
      in case forceFunction position i of
           None \<Rightarrow> Some ps
         | Some force \<Rightarrow> do {
             v \<leftarrow> js_at (velocities ps) (int i);
             Some (ps\<lparr>velocities := (velocities ps)[i := limitSpeed (vadd v force) 5.0]\<rparr>)
           })"

definition applyForce ::
  "(vec3 \<Rightarrow> nat \<Rightarrow> vec3 option) \<Rightarrow> particle_system \<Rightarrow> particle_system option" where
  "applyForce forceFunction ps =
     for_each [0..<particleCount ps] (applyForce_particle forceFunction) ps"



definition velocity_after ::
  "(vec3 \<Rightarrow> nat \<Rightarrow> vec3 option) \<Rightarrow> particle_system \<Rightarrow> nat \<Rightarrow> vec3" where
  \<comment> \<open>what one pass of the loop of \<open>applyForce\<close> leaves in \<open>velocities[i]\<close>\<close>
  "velocity_after forceFunction ps i =
     (case forceFunction (getPosition ps i) i of
        None \<Rightarrow> velocities ps ! i
      | Some force \<Rightarrow> limitSpeed (vadd (velocities ps ! i) force) 5.0)"




section \<open>AtomMode\<close>

definition atomForce ::
  "vec3 \<Rightarrow> real \<Rightarrow> vec3 option \<Rightarrow> gesture_result \<Rightarrow> rand3 \<Rightarrow> rand3 \<Rightarrow> vec3 \<Rightarrow> vec3" where
  \<comment> \<open>the force function that \<open>AtomMode.update\<close> passes to \<open>applyForce\<close>, for one particle:
      \<open>nucleusPosition\<close> is the field of the mode, \<open>orbitRadius\<close> the value read from
      \<open>orbitalLevels[particleOrbits[index]]\<close>, \<open>handPosition\<close> is \<open>None\<close> for \<open>null\<close>,
      \<open>repelRnd\<close> and \<open>driftRnd\<close> are the random numbers of \<open>repulsionForce\<close> and
      \<open>randomDrift\<close>\<close>
  "atomForce nucleusPosition orbitRadius handPosition gesture repelRnd driftRnd position =
     (let toCenter = subVectors nucleusPosition position;
          dist = (if vlength toCenter = 0 then 0.0001 else vlength toCenter);
          outwardDir = vnormalize (subVectors position nucleusPosition);
          radialError = dist - orbitRadius;
          force = multiplyScalar outwardDir (- radialError * 0.45);
          force = vadd force (orbitalForce position nucleusPosition 0.8);
          force =
            (case handPosition of
               None \<Rightarrow> force
             | Some hand \<Rightarrow>
                 let worldPos = screenToWorld (vx hand) (vy hand) 0
                 in if gtype gesture = THUMB_UP
                    then vadd force (repulsionForce position worldPos 8.0 repelRnd)
                    else if gtype gesture = PINCH
                    then vadd force (attractionForce position worldPos 10.0)
                    else if gtype gesture = PEACE
                    then vadd force (orbitalForce position nucleusPosition 1.5)
                    else force)
      in vadd force (randomDrift 0.05 driftRnd))"


section \<open>Inputs of the examples\<close>

definition axis_frame :: "real list \<Rightarrow> landmark list" where
  \<comment> \<open>a landmark frame with the given \<open>x\<close> coordinates, \<open>y = 0\<close> and no \<open>z\<close>\<close>
  "axis_frame xs = map (\<lambda>v. \<lparr>lm_x = v, lm_y = 0, lm_z = None\<rparr>) xs"

definition pinch_peace_frame :: "landmark list" where
  \<comment> \<open>thumb tip on the index tip, index and middle stretched and apart, ring and little
      finger folded back\<close>
  "pinch_peace_frame = axis_frame
     [0, 0.05, 0.1, 0.3, 0.5,
      0.2, 0.3, 0.4, 0.5,
      0.2, 0.3, 0.4, 0.6,
      0.2, 0.3, 0.25, 0.2,
      0.2, 0.3, 0.25, 0.2]"

definition rest_frame :: "landmark list" where
  \<comment> \<open>all 21 landmarks at the origin\<close>
  "rest_frame = axis_frame (replicate 21 0)"

definition huge_frame :: "landmark list" where
  \<comment> \<open>the index finger folded back on itself, its joints \<open>2^700\<close> apart\<close>
  "huge_frame = axis_frame
     [0, 0, 0, 0, 0,
      2 ^ 700, 0, 2 ^ 700, 0,
      0, 0, 0, 0,
      0, 0, 0, 0,
      0, 0, 0, 0]"

definition plane_frame :: "(real \<times> real) list \<Rightarrow> landmark list" where
  \<comment> \<open>a landmark frame with the given \<open>x\<close> and \<open>y\<close> coordinates and no \<open>z\<close>\<close>
  "plane_frame ps = map (\<lambda>(a, b). \<lparr>lm_x = a, lm_y = b, lm_z = None\<rparr>) ps"

definition tiny_frame :: "landmark list" where
  \<comment> \<open>the first joint of the index finger \<open>2^-537\<close> and \<open>5 * 2^-540\<close> away from the second
      along \<open>x\<close> and \<open>y\<close>, the third at \<open>(3, 4)\<close> from it\<close>
  "tiny_frame = plane_frame
     [(0, 0), (0, 0), (0, 0), (0, 0), (0, 0),
      (1 / 2 ^ 537, 5 / 2 ^ 540), (0, 0), (3, 4), (0, 0),
      (0, 0), (0, 0), (0, 0), (0, 0),
      (0, 0), (0, 0), (0, 0), (0, 0),
      (0, 0), (0, 0), (0, 0), (0, 0)]"

definition bounded_landmark :: "landmark \<Rightarrow> bool" where
  \<comment> \<open>coordinates of magnitude at most \<open>2^500\<close>\<close>
  "bounded_landmark p \<longleftrightarrow>
     \<bar>lm_x p\<bar> \<le> 2 ^ 500 \<and> \<bar>lm_y p\<bar> \<le> 2 ^ 500 \<and> \<bar>z_or_0 p\<bar> \<le> 2 ^ 500"

definition held_pinch :: detector where
  \<comment> \<open>the detector after two frames of \<open>pinch_peace_frame\<close>\<close>
  "held_pinch = \<lparr>lastGesture = PINCH, gestureStableCount = 1, frameCount = 2\<rparr>"

fun alternate :: "'a \<Rightarrow> 'a \<Rightarrow> nat \<Rightarrow> 'a list" where
  \<comment> \<open>\<open>a, b, a, b, ...\<close> of the given length\<close>
  "alternate a b 0 = []"
| "alternate a b (Suc n) = a # alternate b a n"

definition one_particle :: particle_system where
  \<comment> \<open>one particle at \<open>(1, 2, 3)\<close>, at rest\<close>
  "one_particle =
     \<lparr>particleCount = 1, positions = [1, 2, 3], customColor = [0, 0.6, 0.8], sizes = [2],
      velocities = [Vector3 0 0 0], originalPositions = [Vector3 1 2 3], uTime = 0\<rparr>"



definition push :: "vec3 \<Rightarrow> vec3 \<Rightarrow> nat \<Rightarrow> vec3 option" where
  \<comment> \<open>the force function that returns the same force for every particle\<close>
  "push f position i = Some f"


section \<open>The gesture detector on a frame of 21 landmarks\<close>

text \<open>
  Past the guard of \<open>detect\<close> every landmark read is in range, so no helper throws: each
  returns a value, and \<open>detect\<close> is the stability check applied to the raw gesture.
\<close>

lemma js_at_21:
  "length lms = 21 \<Longrightarrow> 0 \<le> i \<Longrightarrow> i \<le> 20 \<Longrightarrow> js_at lms i = Some (lms ! nat i)"
  by (simp add: js_at_def)

lemma getFingerCurlAngle_21:
  "length lms = 21 \<Longrightarrow> 3 \<le> tip \<Longrightarrow> tip \<le> 21 \<Longrightarrow>
   getFingerCurlAngle lms tip =
     Some (curlAngle (lms ! nat (tip - 3)) (lms ! nat (tip - 2)) (lms ! nat (tip - 1)))"
  by (simp add: getFingerCurlAngle_def js_at_21)

lemma isFingerExtended_21:
  "length lms = 21 \<Longrightarrow> 3 \<le> tip \<Longrightarrow> tip \<le> 20 \<Longrightarrow> \<exists>b. isFingerExtended lms tip = Some b"
  by (simp add: isFingerExtended_def js_at_21 getFingerCurlAngle_21)

lemma isFingerCurled_21:
  "length lms = 21 \<Longrightarrow> 3 \<le> tip \<Longrightarrow> tip \<le> 20 \<Longrightarrow> \<exists>b. isFingerCurled lms tip = Some b"
  by (simp add: isFingerCurled_def js_at_21 getFingerCurlAngle_21)

lemma isThumbExtended_21: "length lms = 21 \<Longrightarrow> \<exists>b. isThumbExtended lms = Some b"
  by (simp add: isThumbExtended_def js_at_21)

lemma getPalmWidth_21: "length lms = 21 \<Longrightarrow> \<exists>w. getPalmWidth lms = Some w"
  by (simp add: getPalmWidth_def js_at_21)

lemma isPinch_21: "length lms = 21 \<Longrightarrow> \<exists>b. isPinch lms = Some b"
  using isThumbExtended_21[of lms] isFingerExtended_21[of lms 8]
  by (auto simp add: isPinch_def js_at_21)

lemma isPeaceSign_21: "length lms = 21 \<Longrightarrow> \<exists>b. isPeaceSign lms = Some b"
  using isThumbExtended_21[of lms] isFingerExtended_21[of lms 8] isFingerExtended_21[of lms 12]
    isFingerCurled_21[of lms 16] isFingerCurled_21[of lms 20] getPalmWidth_21[of lms]
  by (auto simp add: isPeaceSign_def js_at_21 Let_def)

lemma isFullHandOpen_21: "length lms = 21 \<Longrightarrow> \<exists>b. isFullHandOpen lms = Some b"
  using isThumbExtended_21[of lms] isFingerExtended_21[of lms 8] isFingerExtended_21[of lms 12]
    isFingerExtended_21[of lms 16] isFingerExtended_21[of lms 20] getPalmWidth_21[of lms]
  by (auto simp add: isFullHandOpen_def)

lemma rawGesture_21: "length lms = 21 \<Longrightarrow> rawGesture lms \<noteq> None"
proof -
  assume len: "length lms = 21"
  obtain p q r where "isPinch lms = Some p" "isPeaceSign lms = Some q" "isFullHandOpen lms = Some r"
    using isPinch_21[OF len] isPeaceSign_21[OF len] isFullHandOpen_21[OF len] by blast
  then show ?thesis
    by (cases p; cases q; cases r) (simp_all add: rawGesture_def del: not_None_eq)
qed

lemma detect_21:
  "length lms = 21 \<Longrightarrow> rawGesture lms = Some (g, c) \<Longrightarrow>
   detect (Some lms) d = Some (debounce g c (d\<lparr>frameCount := frameCount d + 1\<rparr>))"
  using isThumbExtended_21[of lms] isFingerExtended_21[of lms 8] isFingerExtended_21[of lms 12]
    isFingerExtended_21[of lms 16] isFingerExtended_21[of lms 20] getPalmWidth_21[of lms]
  by (auto simp add: detect_def js_at_21)

lemma detect_total: "length lms = 21 \<Longrightarrow> detect (Some lms) d \<noteq> None"
proof -
  assume len: "length lms = 21"
  obtain g c where "rawGesture lms = Some (g, c)"
    using rawGesture_21[OF len] by auto
  then show ?thesis
    by (simp add: detect_21[OF len])
qed

lemma rawGesture_confidence:
  "rawGesture lms = Some (g, c) \<Longrightarrow> g \<noteq> NONE \<Longrightarrow> c = 0.9 \<or> c = 0.85"
  by (auto simp add: rawGesture_def split: bind_splits if_splits)

lemma rawGesture_not_THUMB_UP: "rawGesture lms = Some (g, c) \<Longrightarrow> g \<noteq> THUMB_UP"
  by (auto simp add: rawGesture_def split: bind_splits if_splits)

lemma debounce_fresh:
  "lastGesture d \<noteq> g \<Longrightarrow>
   debounce g c d =
     (\<lparr>gtype = NONE, confidence = 0\<rparr>, d\<lparr>gestureStableCount := 0, lastGesture := g\<rparr>)"
  by (auto simp add: debounce_def STABLE_FRAMES_def)

lemma debounce_repeat:
  "lastGesture d = g \<Longrightarrow>
   debounce g c d =
     (if gestureStableCount d + 1 \<ge> STABLE_FRAMES then \<lparr>gtype = g, confidence = c\<rparr>
      else \<lparr>gtype = NONE, confidence = 0\<rparr>,
      d\<lparr>gestureStableCount := gestureStableCount d + 1\<rparr>)"
  by (simp add: debounce_def)

subsection \<open>The example frames\<close>

lemma length_pinch_peace_frame: "length pinch_peace_frame = 21"
  by (simp add: pinch_peace_frame_def axis_frame_def)

lemma length_rest_frame: "length rest_frame = 21"
  by (simp add: rest_frame_def axis_frame_def)

lemma isPinch_pinch_peace_frame: "isPinch pinch_peace_frame = Some True"
  by (simp add: isPinch_def isThumbExtended_def isFingerExtended_def getFingerCurlAngle_def
      js_at_def pinch_peace_frame_def axis_frame_def calculateDistance_def z_or_0_def
      PINCH_THRESHOLD_def)

lemma isPeaceSign_pinch_peace_frame: "isPeaceSign pinch_peace_frame = Some True"
  by (simp add: isPeaceSign_def isThumbExtended_def isFingerExtended_def isFingerCurled_def
      getFingerCurlAngle_def js_at_def pinch_peace_frame_def axis_frame_def
      calculateDistance_def z_or_0_def getPalmWidth_def PEACE_V_MIN_SPREAD_def
      PEACE_V_SPREAD_RATIO_def)

lemma rawGesture_pinch_peace_frame: "rawGesture pinch_peace_frame = Some (PINCH, 0.9)"
  by (simp add: rawGesture_def isPinch_pinch_peace_frame)

lemma dbl_0: "dbl 0 = Num 0"
  by (simp add: dbl_def flush_def)

lemma curlAngle_same: "curlAngle p p r = Num 180"
  by (simp add: curlAngle_def jsub_def jmag_def dbl_0)

lemma rawGesture_rest_frame: "rawGesture rest_frame = Some (NONE, 0)"
  by (simp add: rawGesture_def isFullHandOpen_def isPinch_def isPeaceSign_def
      isThumbExtended_def isFingerExtended_def isFingerCurled_def getFingerCurlAngle_def
      js_at_def rest_frame_def axis_frame_def calculateDistance_def z_or_0_def
      getPalmWidth_def curlAngle_same CURL_ANGLE_THRESHOLD_def EXTENDED_ANGLE_THRESHOLD_def)

lemma sqrt_hundredth: "sqrt (1 / 100) = 1 / 10"
  by (rule real_sqrt_unique) (simp_all add: power2_eq_square)


section \<open>The stability check\<close>

text \<open>
  Claim C1, as the code has it. A frame of 21 landmarks whose raw gesture is \<open>G\<close>, other
  than \<open>NONE\<close>, is fed to a detector whose \<open>lastGesture\<close> is not \<open>G\<close>. The first frame
  sets the count to 0 and each further frame adds 1, so the first \<open>STABLE_FRAMES\<close> calls
  return \<open>NONE\<close> with confidence 0, and call number \<open>STABLE_FRAMES + 1\<close> returns \<open>G\<close> with
  its confidence, which is not 0.
\<close>

theorem detect_emits_after_stable_frames:
  assumes len: "length lms = 21" and raw: "rawGesture lms = Some (G, c)"
    and G: "G \<noteq> NONE" and last: "lastGesture d \<noteq> G"
  shows "map_option fst (detect_frames (replicate (STABLE_FRAMES + 1) (Some lms)) d) =
           Some (replicate STABLE_FRAMES \<lparr>gtype = NONE, confidence = 0\<rparr>
                 @ [\<lparr>gtype = G, confidence = c\<rparr>])
         \<and> c \<noteq> 0"
proof -
  have step: "detect (Some lms) e = Some (debounce G c (e\<lparr>frameCount := frameCount e + 1\<rparr>))"
    for e
    by (rule detect_21[OF len raw])
  have three: "replicate (STABLE_FRAMES + 1) (Some lms) = [Some lms, Some lms, Some lms]"
    by (simp add: STABLE_FRAMES_def numeral_3_eq_3)
  have "c \<noteq> 0"
    using rawGesture_confidence[OF raw G] by auto
  moreover have "map_option fst (detect_frames [Some lms, Some lms, Some lms] d) =
      Some [\<lparr>gtype = NONE, confidence = 0\<rparr>, \<lparr>gtype = NONE, confidence = 0\<rparr>,
            \<lparr>gtype = G, confidence = c\<rparr>]"
    using last by (simp add: step debounce_fresh debounce_repeat STABLE_FRAMES_def)
  ultimately show ?thesis
    by (simp add: three STABLE_FRAMES_def numeral_2_eq_2)
qed

text \<open>The theorem at the pinching frame and a new detector.\<close>

theorem detect_emits_after_stable_frames_witness:
  "length pinch_peace_frame = 21 \<and> rawGesture pinch_peace_frame = Some (PINCH, 0.9) \<and>
   PINCH \<noteq> NONE \<and> lastGesture new_detector \<noteq> PINCH \<and>
   map_option fst
     (detect_frames (replicate (STABLE_FRAMES + 1) (Some pinch_peace_frame)) new_detector) =
     Some (replicate STABLE_FRAMES \<lparr>gtype = NONE, confidence = 0\<rparr>
           @ [\<lparr>gtype = PINCH, confidence = 0.9\<rparr>])"
  using detect_emits_after_stable_frames[of pinch_peace_frame PINCH "0.9" new_detector]
  by (simp add: length_pinch_peace_frame rawGesture_pinch_peace_frame new_detector_def)

text \<open>
  Claim C1 as the specification states it fails: on a new detector the pinching frame,
  fed \<open>STABLE_FRAMES\<close> times, returns \<open>NONE\<close> on the last of these calls too.
\<close>

theorem detect_silent_at_stable_frames:
  "rawGesture pinch_peace_frame = Some (PINCH, 0.9) \<and> lastGesture new_detector \<noteq> PINCH \<and>
   map_option fst
     (detect_frames (replicate STABLE_FRAMES (Some pinch_peace_frame)) new_detector) =
     Some [\<lparr>gtype = NONE, confidence = 0\<rparr>, \<lparr>gtype = NONE, confidence = 0\<rparr>]"
  by (simp add: rawGesture_pinch_peace_frame
      detect_21[OF length_pinch_peace_frame rawGesture_pinch_peace_frame]
      STABLE_FRAMES_def numeral_2_eq_2 new_detector_def debounce_def)

text \<open>
  Claim C2, as the code has it. A call of \<open>detect\<close> with no landmarks, or with a number
  of landmarks other than 21, returns \<open>NONE\<close> with confidence 0 and leaves the detector
  as it was: \<open>lastGesture\<close>, \<open>gestureStableCount\<close> and \<open>frameCount\<close> keep their values.
\<close>

theorem detect_bad_frame_keeps_state:
  assumes "landmarks = None \<or> (\<exists>lms. landmarks = Some lms \<and> length lms \<noteq> 21)"
  shows "detect landmarks d = Some (\<lparr>gtype = NONE, confidence = 0\<rparr>, d)"
  using assms by (auto simp add: detect_def)

text \<open>The theorem at no landmarks and at an empty list of landmarks.\<close>

theorem detect_bad_frame_keeps_state_witness:
  "detect None held_pinch = Some (\<lparr>gtype = NONE, confidence = 0\<rparr>, held_pinch) \<and>
   detect (Some []) held_pinch = Some (\<lparr>gtype = NONE, confidence = 0\<rparr>, held_pinch)"
  using detect_bad_frame_keeps_state[of None held_pinch]
    detect_bad_frame_keeps_state[of "Some []" held_pinch]
  by simp

text \<open>
  Claim C2 as the specification states it fails. Two pinching frames bring a new detector
  to \<open>held_pinch\<close>. From there a call without landmarks keeps \<open>held_pinch\<close>, while a frame
  whose raw gesture is \<open>NONE\<close> resets the count and sets \<open>lastGesture\<close> to \<open>NONE\<close>; the
  next pinching frame is answered with \<open>PINCH\<close> after the first and with \<open>NONE\<close> after
  the second.
\<close>

theorem detect_bad_frame_is_no_none_frame:
  "rawGesture rest_frame = Some (NONE, 0) \<and>
   map_option snd
     (detect_frames [Some pinch_peace_frame, Some pinch_peace_frame] new_detector) =
     Some held_pinch \<and>
   map_option snd (detect None held_pinch) = Some held_pinch \<and>
   map_option snd (detect (Some rest_frame) held_pinch) =
     Some \<lparr>lastGesture = NONE, gestureStableCount = 0, frameCount = 3\<rparr> \<and>
   map_option fst (detect_frames [None, Some pinch_peace_frame] held_pinch) =
     Some [\<lparr>gtype = NONE, confidence = 0\<rparr>, \<lparr>gtype = PINCH, confidence = 0.9\<rparr>] \<and>
   map_option fst (detect_frames [Some rest_frame, Some pinch_peace_frame] held_pinch) =
     Some [\<lparr>gtype = NONE, confidence = 0\<rparr>, \<lparr>gtype = NONE, confidence = 0\<rparr>]"
  by (simp add: rawGesture_rest_frame
      detect_21[OF length_pinch_peace_frame rawGesture_pinch_peace_frame]
      detect_21[OF length_rest_frame rawGesture_rest_frame] held_pinch_def
      new_detector_def debounce_def STABLE_FRAMES_def detect_def[of None])

text \<open>
  Claim C5. On a frame of 21 landmarks for which \<open>isPinch\<close> and \<open>isPeaceSign\<close> both
  hold, the raw gesture is \<open>PINCH\<close> with confidence 0.9, and this is the gesture that
  \<open>detect\<close> passes to its stability check.
\<close>

theorem pinch_precedes_peace:
  assumes "length lms = 21" "isPinch lms = Some True" "isPeaceSign lms = Some True"
  shows "rawGesture lms = Some (PINCH, 0.9) \<and>
         detect (Some lms) d = Some (debounce PINCH 0.9 (d\<lparr>frameCount := frameCount d + 1\<rparr>))"
proof -
  have raw: "rawGesture lms = Some (PINCH, 0.9)"
    using assms(2) by (simp add: rawGesture_def)
  show ?thesis
    using raw detect_21[OF assms(1) raw] by simp
qed

text \<open>The theorem at a frame that satisfies both predicates.\<close>

theorem pinch_precedes_peace_witness:
  "length pinch_peace_frame = 21 \<and> isPinch pinch_peace_frame = Some True \<and>
   isPeaceSign pinch_peace_frame = Some True \<and>
   rawGesture pinch_peace_frame = Some (PINCH, 0.9)"
  using pinch_precedes_peace[of pinch_peace_frame new_detector]
  by (simp add: length_pinch_peace_frame isPinch_pinch_peace_frame
      isPeaceSign_pinch_peace_frame)

text \<open>
  Frames whose raw gestures alternate between \<open>a\<close> and \<open>b\<close>, from a detector whose count
  is 0 or whose \<open>lastGesture\<close> is not \<open>a\<close> and whose count is below the threshold: every
  call returns \<open>NONE\<close> and the count stays below the threshold.
\<close>

lemma detect_alternating_from:
  assumes "a \<noteq> b" "\<forall>f \<in> set fs. length f = 21"
    "map (map_option fst \<circ> rawGesture) fs = map Some (alternate a b (length fs))"
    "gestureStableCount d = 0 \<or>
     (lastGesture d \<noteq> a \<and> gestureStableCount d < STABLE_FRAMES)"
  shows "\<exists>d'. detect_frames (map Some fs) d =
                 Some (replicate (length fs) \<lparr>gtype = NONE, confidence = 0\<rparr>, d')
           \<and> gestureStableCount d' < STABLE_FRAMES"
  using assms
proof (induction fs arbitrary: a b d)
  case Nil
  then show ?case by (auto simp add: STABLE_FRAMES_def)
next
  case (Cons f fs)
  from Cons.prems(3) obtain c where raw: "rawGesture f = Some (a, c)"
    by auto
  have len: "length f = 21"
    using Cons.prems(2) by simp
  define d1 where "d1 = snd (debounce a c (d\<lparr>frameCount := frameCount d + 1\<rparr>))"
  have out: "detect (Some f) d = Some (\<lparr>gtype = NONE, confidence = 0\<rparr>, d1)"
    using Cons.prems(4) unfolding d1_def detect_21[OF len raw]
    by (auto simp add: debounce_def STABLE_FRAMES_def)
  have last1: "lastGesture d1 = a" "gestureStableCount d1 < STABLE_FRAMES"
    using Cons.prems(4) unfolding d1_def by (auto simp add: debounce_def STABLE_FRAMES_def)
  have "\<exists>d'. detect_frames (map Some fs) d1 =
               Some (replicate (length fs) \<lparr>gtype = NONE, confidence = 0\<rparr>, d')
           \<and> gestureStableCount d' < STABLE_FRAMES"
    using Cons.prems last1 by (intro Cons.IH[of b a d1]) auto
  then show ?case
    using out by auto
qed

text \<open>
  Claim C8. Frames of 21 landmarks whose raw gestures alternate between two different
  gestures, fed to a new detector one after the other: every call of \<open>detect\<close> returns
  \<open>NONE\<close> with confidence 0, and the stability count ends below \<open>STABLE_FRAMES\<close>
  (after every prefix too, a prefix being such a sequence itself).
\<close>

theorem detect_alternating_silent:
  assumes "a \<noteq> b" "\<forall>f \<in> set fs. length f = 21"
    "map (map_option fst \<circ> rawGesture) fs = map Some (alternate a b (length fs))"
  shows "\<exists>d'. detect_frames (map Some fs) new_detector =
                 Some (replicate (length fs) \<lparr>gtype = NONE, confidence = 0\<rparr>, d')
           \<and> gestureStableCount d' < STABLE_FRAMES"
  by (rule detect_alternating_from[OF assms]) (simp add: new_detector_def)

text \<open>The theorem at the pinching frame and the frame at rest, in turn.\<close>

theorem detect_alternating_silent_witness:
  "PINCH \<noteq> NONE \<and>
   map (map_option fst \<circ> rawGesture) [pinch_peace_frame, rest_frame, pinch_peace_frame] =
     map Some (alternate PINCH NONE 3) \<and>
   map_option fst
     (detect_frames (map Some [pinch_peace_frame, rest_frame, pinch_peace_frame]) new_detector) =
     Some (replicate 3 \<lparr>gtype = NONE, confidence = 0\<rparr>)"
  using detect_alternating_silent[of PINCH NONE "[pinch_peace_frame, rest_frame, pinch_peace_frame]"]
  by (auto simp add: length_pinch_peace_frame length_rest_frame rawGesture_pinch_peace_frame
      rawGesture_rest_frame numeral_3_eq_3)


section \<open>The curl angle\<close>

subsection \<open>Results within the range of a double\<close>

lemma flush_abs: "\<bar>flush r\<bar> \<le> \<bar>r\<bar>"
  by (simp add: flush_def)

lemma flush_nonneg: "0 \<le> r \<Longrightarrow> 0 \<le> flush r"
  by (simp add: flush_def)

lemma flush_0: "flush 0 = 0"
  by (simp add: flush_def)

lemma flush_big: "1 / 2 ^ 1075 < r \<Longrightarrow> flush r = r"
  by (simp add: flush_def)

lemma flush_quantum: "0 \<le> r \<Longrightarrow> flush r = 0 \<or> 1 / 2 ^ 1075 < flush r"
  by (simp add: flush_def)

lemma dbl_Num: "\<bar>r\<bar> \<le> 2 ^ 1005 \<Longrightarrow> dbl r = Num (flush r)"
proof -
  assume "\<bar>r\<bar> \<le> 2 ^ 1005"
  moreover have "(2::real) ^ 1005 < 2 ^ 1024 - 2 ^ 970" by simp
  ultimately show ?thesis by (simp add: dbl_def)
qed

lemma abs_mult_bound: "\<bar>a\<bar> \<le> x \<Longrightarrow> \<bar>b\<bar> \<le> y \<Longrightarrow> \<bar>a * b\<bar> \<le> x * (y::real)"
  by (simp add: abs_mult mult_mono)

lemma times_Num:
  assumes "\<bar>a\<bar> \<le> 2 ^ 501" "\<bar>b\<bar> \<le> 2 ^ 501"
  shows "dbl (a * b) = Num (flush (a * b))" "\<bar>flush (a * b)\<bar> \<le> 2 ^ 1002"
proof -
  have "\<bar>a * b\<bar> \<le> 2 ^ 501 * 2 ^ 501" by (rule abs_mult_bound[OF assms])
  then have b: "\<bar>a * b\<bar> \<le> 2 ^ 1002" by (simp add: power_add[symmetric])
  moreover have "(2::real) ^ 1002 \<le> 2 ^ 1005" by simp
  ultimately have "\<bar>a * b\<bar> \<le> 2 ^ 1005" by linarith
  then show "dbl (a * b) = Num (flush (a * b))" by (simp add: dbl_Num)
  show "\<bar>flush (a * b)\<bar> \<le> 2 ^ 1002" using b flush_abs[of "a * b"] by linarith
qed

lemma plus_Num:
  assumes "\<bar>a\<bar> \<le> 2 ^ 1003" "\<bar>b\<bar> \<le> 2 ^ 1003"
  shows "dbl (a + b) = Num (flush (a + b))"
proof -
  have "\<bar>a + b\<bar> \<le> 2 ^ 1003 + 2 ^ 1003" using assms by linarith
  also have "\<dots> \<le> (2::real) ^ 1005" by simp
  finally show ?thesis by (simp add: dbl_Num)
qed


lemma jsub_Num:
  assumes "bounded_landmark a" "bounded_landmark b"
  shows "\<exists>x y z. jsub a b = (Num x, Num y, Num z) \<and>
           \<bar>x\<bar> \<le> 2 ^ 501 \<and> \<bar>y\<bar> \<le> 2 ^ 501 \<and> \<bar>z\<bar> \<le> 2 ^ 501 \<and>
           (lm_x a = lm_x b \<and> lm_y a = lm_y b \<and> z_or_0 a = z_or_0 b \<longrightarrow>
              x = 0 \<and> y = 0 \<and> z = 0)"
proof -
  have d: "\<bar>p - q\<bar> \<le> 2 ^ 501" if "\<bar>p\<bar> \<le> 2 ^ 500" "\<bar>q\<bar> \<le> 2 ^ 500" for p q :: real
  proof -
    have "\<bar>p - q\<bar> \<le> 2 ^ 500 + 2 ^ 500" using that by linarith
    then show ?thesis by simp
  qed
  have e: "dbl (p - q) = Num (flush (p - q)) \<and> \<bar>flush (p - q)\<bar> \<le> 2 ^ 501"
    if "\<bar>p\<bar> \<le> 2 ^ 500" "\<bar>q\<bar> \<le> 2 ^ 500" for p q :: real
  proof -
    have b: "\<bar>p - q\<bar> \<le> 2 ^ 501" by (rule d[OF that])
    moreover have "(2::real) ^ 501 \<le> 2 ^ 1005" by simp
    ultimately have "\<bar>p - q\<bar> \<le> 2 ^ 1005" by linarith
    then show ?thesis using b flush_abs[of "p - q"] by (simp add: dbl_Num)
  qed
  show ?thesis
    using assms e[of "lm_x a" "lm_x b"] e[of "lm_y a" "lm_y b"] e[of "z_or_0 a" "z_or_0 b"]
    by (auto simp add: jsub_def bounded_landmark_def flush_0)
qed

lemma jdot_Num:
  assumes "\<bar>x1\<bar> \<le> 2 ^ 501" "\<bar>y1\<bar> \<le> 2 ^ 501" "\<bar>z1\<bar> \<le> 2 ^ 501"
    "\<bar>x2\<bar> \<le> 2 ^ 501" "\<bar>y2\<bar> \<le> 2 ^ 501" "\<bar>z2\<bar> \<le> 2 ^ 501"
  shows "jdot (Num x1, Num y1, Num z1) (Num x2, Num y2, Num z2) =
     Num (flush (flush (flush (x1 * x2) + flush (y1 * y2)) + flush (z1 * z2)))"
proof -
  note px = times_Num[OF assms(1) assms(4)]
  note py = times_Num[OF assms(2) assms(5)]
  note pz = times_Num[OF assms(3) assms(6)]
  have le: "(2::real) ^ 1002 \<le> 2 ^ 1003" by simp
  have s1: "dbl (flush (x1 * x2) + flush (y1 * y2)) =
      Num (flush (flush (x1 * x2) + flush (y1 * y2)))"
    by (rule plus_Num) (use px(2) py(2) le in linarith)+
  have "\<bar>flush (x1 * x2) + flush (y1 * y2)\<bar> \<le> 2 ^ 1002 + 2 ^ 1002"
    using px(2) py(2) by linarith
  then have "\<bar>flush (x1 * x2) + flush (y1 * y2)\<bar> \<le> 2 ^ 1003" by simp
  then have b: "\<bar>flush (flush (x1 * x2) + flush (y1 * y2))\<bar> \<le> 2 ^ 1003"
    using flush_abs[of "flush (x1 * x2) + flush (y1 * y2)"] by linarith
  have s2: "dbl (flush (flush (x1 * x2) + flush (y1 * y2)) + flush (z1 * z2)) =
      Num (flush (flush (flush (x1 * x2) + flush (y1 * y2)) + flush (z1 * z2)))"
    by (rule plus_Num) (use b pz(2) le in linarith)+
  show ?thesis by (simp add: px(1) py(1) pz(1) s1 s2)
qed

text \<open>The sum of the squares, as computed: it is zero or above the underflow threshold.\<close>

lemma flush_square: "flush (x * x) = 0 \<or> 1 / 2 ^ 1075 < flush (x * x)"
  by (rule flush_quantum) simp

lemma quantum_add:
  assumes "p = 0 \<or> 1 / 2 ^ 1075 < p" "q = 0 \<or> 1 / 2 ^ 1075 < q"
  shows "flush (p + q) = p + q" "p + q = 0 \<or> 1 / 2 ^ 1075 < p + (q::real)"
proof -
  have pos: "(0::real) < 1 / 2 ^ 1075" by simp
  show "p + q = 0 \<or> 1 / 2 ^ 1075 < p + q" using assms pos by linarith
  then show "flush (p + q) = p + q" using pos by (auto simp add: flush_def)
qed

lemma jmag_Num:
  assumes "\<bar>x\<bar> \<le> 2 ^ 501" "\<bar>y\<bar> \<le> 2 ^ 501" "\<bar>z\<bar> \<le> 2 ^ 501"
  shows "\<exists>s. jmag (Num x, Num y, Num z) = Num (sqrt s) \<and> 0 \<le> s \<and> s \<le> 2 ^ 1004 \<and>
           (s = 0 \<or> 1 / 2 ^ 1075 < s) \<and> (x = 0 \<and> y = 0 \<and> z = 0 \<longrightarrow> s = 0)"
proof -
  define p where "p = flush (x * x)"
  define q where "q = flush (y * y)"
  define r where "r = flush (z * z)"
  have qp: "p = 0 \<or> 1 / 2 ^ 1075 < p" and qq: "q = 0 \<or> 1 / 2 ^ 1075 < q"
    and qr: "r = 0 \<or> 1 / 2 ^ 1075 < r"
    unfolding p_def q_def r_def by (rule flush_square)+
  have bp: "\<bar>p\<bar> \<le> 2 ^ 1002" and bq: "\<bar>q\<bar> \<le> 2 ^ 1002" and br: "\<bar>r\<bar> \<le> 2 ^ 1002"
    unfolding p_def q_def r_def
    using times_Num(2)[OF assms(1) assms(1)] times_Num(2)[OF assms(2) assms(2)]
      times_Num(2)[OF assms(3) assms(3)] by simp_all
  have pq: "flush (p + q) = p + q" "p + q = 0 \<or> 1 / 2 ^ 1075 < p + q"
    by (rule quantum_add[OF qp qq])+
  have pqr: "flush (p + q + r) = p + q + r" "p + q + r = 0 \<or> 1 / 2 ^ 1075 < p + q + r"
    by (rule quantum_add[OF pq(2) qr])+
  have d: "jdot (Num x, Num y, Num z) (Num x, Num y, Num z) = Num (p + q + r)"
    unfolding jdot_Num[OF assms assms] by (simp add: p_def[symmetric] q_def[symmetric] r_def[symmetric] pq(1) pqr(1))
  have pos: "(0::real) < 1 / 2 ^ 1075" by simp
  have nn: "0 \<le> p + q + r" using pqr(2) pos by linarith
  have "p + q + r \<le> 2 ^ 1002 + 2 ^ 1002 + 2 ^ 1002" using bp bq br by linarith
  then have ub: "p + q + r \<le> 2 ^ 1004" by simp
  have z: "p + q + r = 0" if "x = 0 \<and> y = 0 \<and> z = 0"
    using that by (simp add: p_def q_def r_def flush_0)
  have "jmag (Num x, Num y, Num z) = Num (sqrt (p + q + r))"
    using nn by (simp add: jmag_def d del: jdot.simps)
  then show ?thesis using nn ub pqr(2) z by blast
qed

lemma clamp_dbl: "\<exists>c. js_max (-1) (js_min 1 (dbl r)) = Num c \<and> -1 \<le> c \<and> c \<le> 1"
  by (auto simp add: dbl_def js_inf_of_def)

lemma sqrt_product_above:
  assumes "c < s1" "c < s2" "0 < (c::real)"
  shows "c < sqrt s1 * sqrt s2"
proof -
  have "sqrt c < sqrt s1" "sqrt c < sqrt s2" using assms by simp_all
  moreover have "0 < sqrt c" using assms(3) by simp
  ultimately have "sqrt c * sqrt c < sqrt s1 * sqrt s2"
    by (intro mult_strict_mono) simp_all
  then show ?thesis using assms(3) by simp
qed

lemma sqrt_product_below:
  assumes "0 \<le> s1" "s1 \<le> c" "0 \<le> s2" "s2 \<le> (c::real)"
  shows "sqrt s1 * sqrt s2 \<le> c"
proof -
  have c: "0 \<le> c" using assms by linarith
  have "sqrt s1 \<le> sqrt c" "sqrt s2 \<le> sqrt c" using assms by simp_all
  then have "sqrt s1 * sqrt s2 \<le> sqrt c * sqrt c"
    using assms c by (intro mult_mono) simp_all
  then show ?thesis using c by simp
qed

lemma curlAngle_bounded:
  assumes "bounded_landmark mcp" "bounded_landmark pip" "bounded_landmark dip"
  shows "\<exists>a. curlAngle mcp pip dip = Num a \<and> 0 \<le> a \<and> a \<le> 180 \<and>
     ((lm_x mcp = lm_x pip \<and> lm_y mcp = lm_y pip \<and> z_or_0 mcp = z_or_0 pip) \<or>
      (lm_x dip = lm_x pip \<and> lm_y dip = lm_y pip \<and> z_or_0 dip = z_or_0 pip) \<longrightarrow> a = 180)"
proof -
  obtain x1 y1 z1 where v1: "jsub mcp pip = (Num x1, Num y1, Num z1)"
    "\<bar>x1\<bar> \<le> 2 ^ 501" "\<bar>y1\<bar> \<le> 2 ^ 501" "\<bar>z1\<bar> \<le> 2 ^ 501"
    "lm_x mcp = lm_x pip \<and> lm_y mcp = lm_y pip \<and> z_or_0 mcp = z_or_0 pip \<longrightarrow>
              x1 = 0 \<and> y1 = 0 \<and> z1 = 0"
    using jsub_Num[OF assms(1,2)] by blast
  obtain x2 y2 z2 where v2: "jsub dip pip = (Num x2, Num y2, Num z2)"
    "\<bar>x2\<bar> \<le> 2 ^ 501" "\<bar>y2\<bar> \<le> 2 ^ 501" "\<bar>z2\<bar> \<le> 2 ^ 501"
    "lm_x dip = lm_x pip \<and> lm_y dip = lm_y pip \<and> z_or_0 dip = z_or_0 pip \<longrightarrow>
              x2 = 0 \<and> y2 = 0 \<and> z2 = 0"
    using jsub_Num[OF assms(3,2)] by blast
  obtain s1 where m1: "jmag (Num x1, Num y1, Num z1) = Num (sqrt s1)" "0 \<le> s1" "s1 \<le> 2 ^ 1004"
    "s1 = 0 \<or> 1 / 2 ^ 1075 < s1" "x1 = 0 \<and> y1 = 0 \<and> z1 = 0 \<longrightarrow> s1 = 0"
    using jmag_Num[OF v1(2,3,4)] by blast
  obtain s2 where m2: "jmag (Num x2, Num y2, Num z2) = Num (sqrt s2)" "0 \<le> s2" "s2 \<le> 2 ^ 1004"
    "s2 = 0 \<or> 1 / 2 ^ 1075 < s2" "x2 = 0 \<and> y2 = 0 \<and> z2 = 0 \<longrightarrow> s2 = 0"
    using jmag_Num[OF v2(2,3,4)] by blast
  define d where "d = flush (flush (flush (x1 * x2) + flush (y1 * y2)) + flush (z1 * z2))"
  have dot: "jdot (Num x1, Num y1, Num z1) (Num x2, Num y2, Num z2) = Num d"
    unfolding d_def by (rule jdot_Num[OF v1(2,3,4) v2(2,3,4)])
  show ?thesis
  proof (cases "s1 = 0 \<or> s2 = 0")
    case True
    then have "curlAngle mcp pip dip = Num 180"
      by (auto simp add: curlAngle_def Let_def v1(1) v2(1) m1(1) m2(1) simp del: jdot.simps)
    then show ?thesis by simp
  next
    case False
    then have big: "1 / 2 ^ 1075 < s1" "1 / 2 ^ 1075 < s2" using m1(4) m2(4) by auto
    have nz: "sqrt s1 \<noteq> 0" "sqrt s2 \<noteq> 0" using False m1(2) m2(2) by simp_all
    have lo: "1 / 2 ^ 1075 < sqrt s1 * sqrt s2"
      by (rule sqrt_product_above[OF big]) simp
    have hi: "sqrt s1 * sqrt s2 \<le> 2 ^ 1004"
      by (rule sqrt_product_below[OF m1(2,3) m2(2,3)])
    have "(2::real) ^ 1004 \<le> 2 ^ 1005" by simp
    then have "\<bar>sqrt s1 * sqrt s2\<bar> \<le> 2 ^ 1005" using hi lo by simp
    then have mm: "dbl (sqrt s1 * sqrt s2) = Num (sqrt s1 * sqrt s2)"
      using lo by (simp add: dbl_Num flush_big)
    obtain c where c: "js_max (-1) (js_min 1 (dbl (d / (sqrt s1 * sqrt s2)))) = Num c"
      "-1 \<le> c" "c \<le> 1"
      using clamp_dbl by blast
    have ac: "0 \<le> arccos c" "arccos c \<le> pi"
      using c(2,3) by (simp_all add: arccos_lbound arccos_ubound)
    define t where "t = arccos c * (180 / pi)"
    have t: "0 \<le> t" "t \<le> 180" using ac by (simp_all add: t_def field_simps)
    have "(180::real) \<le> 2 ^ 1005" by simp
    then have "\<bar>t\<bar> \<le> 2 ^ 1005" using t by simp
    then have tt: "dbl (arccos c * (180 / pi)) = Num (flush t)"
      by (simp add: dbl_Num t_def)
    have ft: "0 \<le> flush t" "flush t \<le> 180"
      using t flush_abs[of t] by (simp_all add: flush_nonneg)
    have eq: "curlAngle mcp pip dip = Num (flush t)"
      using nz c(1) c(2,3) tt
      by (simp add: curlAngle_def Let_def v1(1) v2(1) m1(1) m2(1) dot mm del: jdot.simps)
    have no: "\<not> ((lm_x mcp = lm_x pip \<and> lm_y mcp = lm_y pip \<and> z_or_0 mcp = z_or_0 pip) \<or>
      (lm_x dip = lm_x pip \<and> lm_y dip = lm_y pip \<and> z_or_0 dip = z_or_0 pip))"
      using False v1(5) v2(5) m1(5) m2(5) by blast
    show ?thesis using eq ft no by blast
  qed
qed

lemma calculateDistance_zero:
  "calculateDistance a b = 0 \<longleftrightarrow>
     lm_x a = lm_x b \<and> lm_y a = lm_y b \<and> z_or_0 a = z_or_0 b"
proof -
  have "x * x + y * y + z * z = 0 \<longleftrightarrow> x = 0 \<and> y = 0 \<and> z = 0" for x y z :: real
  proof
    assume h: "x * x + y * y + z * z = 0"
    have "0 \<le> x * x" "0 \<le> y * y" "0 \<le> z * z"
      by simp_all
    with h have "x * x = 0" "y * y = 0" "z * z = 0"
      by linarith+
    then show "x = 0 \<and> y = 0 \<and> z = 0"
      by simp
  qed simp
  then show ?thesis
    by (simp add: calculateDistance_def Let_def)
qed

subsection \<open>The example frames\<close>

lemma length_huge_frame: "length huge_frame = 21"
  by (simp add: huge_frame_def axis_frame_def)

lemma length_tiny_frame: "length tiny_frame = 21"
  by (simp add: tiny_frame_def plane_frame_def)

lemma bounded_rest_frame: "list_all bounded_landmark rest_frame"
  by (simp add: rest_frame_def axis_frame_def bounded_landmark_def z_or_0_def list_all_iff)

lemma bounded_tiny_frame: "list_all bounded_landmark tiny_frame"
  by (simp add: tiny_frame_def plane_frame_def bounded_landmark_def z_or_0_def)

lemma sqrt_tiny: "sqrt (1 / 2 ^ 1074) = 1 / 2 ^ 537"
proof (rule real_sqrt_unique)
  have "((1::real) / 2 ^ 537)\<^sup>2 = 1 / (2 ^ 537)\<^sup>2" by (simp only: power_divide power_one)
  also have "((2::real) ^ 537)\<^sup>2 = 2 ^ 1074" by (simp only: power_mult[symmetric]) simp
  finally show "((1::real) / 2 ^ 537)\<^sup>2 = 1 / 2 ^ 1074" .
  show "(0::real) \<le> 1 / 2 ^ 537" by simp
qed

lemma sqrt_25: "sqrt 25 = 5"
  by (rule real_sqrt_unique) simp_all

lemma tiny_v1:
  "jsub (tiny_frame ! 5) (tiny_frame ! 6) = (Num (1 / 2 ^ 537), Num (5 / 2 ^ 540), Num 0)"
  by (simp add: tiny_frame_def plane_frame_def jsub_def z_or_0_def dbl_def flush_def)

lemma tiny_v2: "jsub (tiny_frame ! 7) (tiny_frame ! 6) = (Num 3, Num 4, Num 0)"
  by (simp add: tiny_frame_def plane_frame_def jsub_def z_or_0_def dbl_def flush_def)

lemma tiny_dot:
  "jdot (Num (1 / 2 ^ 537), Num (5 / 2 ^ 540), Num 0) (Num 3, Num 4, Num 0) = Num (11 / 2 ^ 538)"
  by (simp add: dbl_def flush_def)

lemma tiny_square:
  "jdot (Num (1 / 2 ^ 537), Num (5 / 2 ^ 540), Num 0) (Num (1 / 2 ^ 537), Num (5 / 2 ^ 540), Num 0)
     = Num (1 / 2 ^ 1074)"
  by (simp add: dbl_def flush_def)

lemma tiny_mag1: "jmag (Num (1 / 2 ^ 537), Num (5 / 2 ^ 540), Num 0) = Num (1 / 2 ^ 537)"
proof -
  have nn: "\<not> (1 / 2 ^ 1074 :: real) < 0" by simp
  show ?thesis
    by (simp only: jmag_def tiny_square js_sqrt.simps nn if_False sqrt_tiny)
qed

lemma tiny_mag2: "jmag (Num 3, Num 4, Num 0) = Num 5"
  by (simp add: jmag_def dbl_def flush_def sqrt_25)

lemma tiny_times: "js_times (Num (1 / 2 ^ 537)) (Num 5) = Num (5 / 2 ^ 537)"
  by (simp add: dbl_def flush_def)

lemma tiny_quot: "js_quot (Num (11 / 2 ^ 538)) (Num (5 / 2 ^ 537)) = Num (11 / 10)"
  by (simp add: dbl_def flush_def)

text \<open>
  On \<open>tiny_frame\<close> the square of \<open>5 * 2^-540\<close> underflows to zero, so the first magnitude
  is \<open>2^-537\<close> and the quotient that the code clamps is \<open>11 / 10\<close>: without the clamp
  \<open>Math.acos\<close> would return NaN here.
\<close>

lemma tiny_frame_cosine:
  "js_quot (jdot (jsub (tiny_frame ! 5) (tiny_frame ! 6)) (jsub (tiny_frame ! 7) (tiny_frame ! 6)))
     (js_times (jmag (jsub (tiny_frame ! 5) (tiny_frame ! 6)))
               (jmag (jsub (tiny_frame ! 7) (tiny_frame ! 6)))) = Num (11 / 10)"
  by (simp only: tiny_v1 tiny_v2 tiny_dot tiny_mag1 tiny_mag2 tiny_times tiny_quot)

lemma curlAngle_tiny_frame:
  "curlAngle (tiny_frame ! 5) (tiny_frame ! 6) (tiny_frame ! 7) = Num 0"
proof -
  have nz: "Num (1 / 2 ^ 537) \<noteq> Num 0" "Num 5 \<noteq> Num 0" by simp_all
  have c: "js_times (js_acos (js_max (- 1) (js_min 1 (Num (11 / 10))))) (Num (180 / pi)) = Num 0"
    by (simp add: dbl_0)
  show ?thesis
    unfolding curlAngle_def Let_def
    using nz c
    by (simp only: tiny_v1 tiny_v2 tiny_dot tiny_mag1 tiny_mag2 tiny_times tiny_quot
        simp_thms if_False)
qed

lemma getFingerCurlAngle_tiny_frame: "getFingerCurlAngle tiny_frame 8 = Some (Num 0)"
  using getFingerCurlAngle_21[OF length_tiny_frame, of 8] by (simp add: curlAngle_tiny_frame)

lemma curlAngle_straight_finger: "getFingerCurlAngle pinch_peace_frame 8 = Some (Num 180)"
proof -
  have v1: "jsub (pinch_peace_frame ! 5) (pinch_peace_frame ! 6) = (Num (- (1 / 10)), Num 0, Num 0)"
    by (simp add: pinch_peace_frame_def axis_frame_def jsub_def z_or_0_def dbl_def flush_def)
  have v2: "jsub (pinch_peace_frame ! 7) (pinch_peace_frame ! 6) = (Num (1 / 10), Num 0, Num 0)"
    by (simp add: pinch_peace_frame_def axis_frame_def jsub_def z_or_0_def dbl_def flush_def)
  have d: "jdot (Num (- (1 / 10)), Num 0, Num 0) (Num (1 / 10), Num 0, Num 0) = Num (- (1 / 100))"
    by (simp add: dbl_def flush_def)
  have m1: "jmag (Num (- (1 / 10)), Num 0, Num 0) = Num (1 / 10)"
    by (simp add: jmag_def dbl_def flush_def sqrt_hundredth)
  have m2: "jmag (Num (1 / 10), Num 0, Num 0) = Num (1 / 10)"
    by (simp add: jmag_def dbl_def flush_def sqrt_hundredth)
  have q: "js_quot (Num (- (1 / 100))) (js_times (Num (1 / 10)) (Num (1 / 10))) = Num (- 1)"
    by (simp add: dbl_def flush_def)
  have c: "js_times (js_acos (js_max (- 1) (js_min 1 (Num (- 1))))) (Num (180 / pi)) = Num 180"
    by (simp add: dbl_def flush_def)
  have nz: "Num (1 / 10) \<noteq> Num 0" by simp
  have "curlAngle (pinch_peace_frame ! 5) (pinch_peace_frame ! 6) (pinch_peace_frame ! 7) = Num 180"
    unfolding curlAngle_def Let_def
    using nz c
    by (simp only: v1 v2 d m1 m2 q simp_thms if_False)
  then show ?thesis
    using getFingerCurlAngle_21[OF length_pinch_peace_frame, of 8] by simp
qed

subsection \<open>The range of the angle\<close>

text \<open>
  Claim C10, as the code has it. On a frame of 21 landmarks whose coordinates have a
  magnitude of at most \<open>2^500\<close>, and a finger tip index (4, 8, 12, 16 or 20),
  \<open>getFingerCurlAngle\<close> throws nothing and returns a number, never NaN or an infinity,
  between 0 and 180; when one of the two joint vectors is the zero vector the result is
  180. No intermediate result overflows on such a frame; a square or a product may
  underflow to zero, and then the guard on the magnitudes or the clamp of the cosine (see
  \<open>tiny_frame_cosine\<close>) keeps the argument of \<open>Math.acos\<close> within \<open>[-1, 1]\<close>.
\<close>

theorem getFingerCurlAngle_bounded_range:
  assumes "length lms = 21" "list_all bounded_landmark lms" "tipIndex \<in> {4, 8, 12, 16, 20}"
  shows "\<exists>a. getFingerCurlAngle lms tipIndex = Some (Num a) \<and> 0 \<le> a \<and> a \<le> 180 \<and>
       (calculateDistance (lms ! nat (tipIndex - 3)) (lms ! nat (tipIndex - 2)) = 0
          \<or> calculateDistance (lms ! nat (tipIndex - 1)) (lms ! nat (tipIndex - 2)) = 0
        \<longrightarrow> a = 180)"
proof -
  have r: "3 \<le> tipIndex" "tipIndex \<le> 21"
    using assms(3) by auto
  have eq: "getFingerCurlAngle lms tipIndex =
    Some (curlAngle (lms ! nat (tipIndex - 3)) (lms ! nat (tipIndex - 2))
            (lms ! nat (tipIndex - 1)))"
    using r by (rule getFingerCurlAngle_21[OF assms(1)])
  have b: "bounded_landmark (lms ! n)" if "n < 21" for n
    using assms(1,2) that by (simp add: list_all_length)
  have "nat (tipIndex - 3) < 21" "nat (tipIndex - 2) < 21" "nat (tipIndex - 1) < 21"
    using r by simp_all
  then have "bounded_landmark (lms ! nat (tipIndex - 3))"
    "bounded_landmark (lms ! nat (tipIndex - 2))" "bounded_landmark (lms ! nat (tipIndex - 1))"
    by (simp_all only: b)
  from curlAngle_bounded[OF this] show ?thesis
    unfolding eq calculateDistance_zero by simp
qed

text \<open>
  The theorem at the frame at rest, whose joint vectors are zero, with the angle of a
  stretched finger and the angle on \<open>tiny_frame\<close>, where the clamp acts, beside it.
\<close>

theorem getFingerCurlAngle_bounded_range_witness:
  "length rest_frame = 21 \<and> list_all bounded_landmark rest_frame \<and>
   (8::int) \<in> {4, 8, 12, 16, 20} \<and>
   getFingerCurlAngle rest_frame 8 = Some (Num 180) \<and>
   getFingerCurlAngle pinch_peace_frame 8 = Some (Num 180) \<and>
   getFingerCurlAngle tiny_frame 8 = Some (Num 0)"
proof -
  have "getFingerCurlAngle rest_frame 8 = Some (Num 180)"
    using getFingerCurlAngle_bounded_range[OF length_rest_frame bounded_rest_frame, of 8]
    by (auto simp add: rest_frame_def axis_frame_def calculateDistance_def z_or_0_def)
  then show ?thesis
    by (simp add: length_rest_frame bounded_rest_frame curlAngle_straight_finger
        getFingerCurlAngle_tiny_frame)
qed

text \<open>
  Claim C10 as stated, for every frame of 21 landmarks, does not hold. On \<open>huge_frame\<close>
  the two joint vectors of the index finger are \<open>(2^700, 0, 0)\<close>: their dot product and
  the squares under the square roots overflow to infinity, the quotient of two infinities
  is NaN, and the clamp, \<open>Math.acos\<close> and the product pass NaN on.
\<close>

theorem getFingerCurlAngle_overflow_NaN:
  "length huge_frame = 21 \<and> getFingerCurlAngle huge_frame 8 = Some NaN"
proof -
  have v1: "jsub (huge_frame ! 5) (huge_frame ! 6) = (Num (2 ^ 700), Num 0, Num 0)"
    by (simp add: huge_frame_def axis_frame_def jsub_def z_or_0_def dbl_def flush_def)
  have v2: "jsub (huge_frame ! 7) (huge_frame ! 6) = (Num (2 ^ 700), Num 0, Num 0)"
    by (simp add: huge_frame_def axis_frame_def jsub_def z_or_0_def dbl_def flush_def)
  have d: "jdot (Num (2 ^ 700), Num 0, Num 0) (Num (2 ^ 700), Num 0, Num 0) = PosInf"
    by (simp add: dbl_def flush_def js_inf_of_def)
  have m: "jmag (Num (2 ^ 700), Num 0, Num 0) = PosInf"
    by (simp only: jmag_def d js_sqrt.simps)
  have q: "js_times (js_acos (js_max (- 1) (js_min 1 (js_quot PosInf (js_times PosInf PosInf)))))
      (Num (180 / pi)) = NaN"
    by (simp add: js_inf_of_def)
  have nz: "PosInf \<noteq> Num 0" by simp
  have "curlAngle (huge_frame ! 5) (huge_frame ! 6) (huge_frame ! 7) = NaN"
    unfolding curlAngle_def Let_def
    using nz q
    by (simp only: v1 v2 d m simp_thms if_False)
  then show ?thesis
    using getFingerCurlAngle_21[OF length_huge_frame, of 8] by (simp add: length_huge_frame)
qed


section \<open>Lengths of vectors\<close>

lemma Vector3_sel [simp]:
  "vx (Vector3 a b c) = a" "vy (Vector3 a b c) = b" "vz (Vector3 a b c) = c"
  by (simp_all add: Vector3_def)








lemma vadd_zero_left: "vadd (Vector3 0 0 0) f = f"
  by (simp add: vadd_def Vector3_def)

lemma vadd_swap_right: "vadd (vadd a b) c = vadd (vadd a c) b"
  by (simp add: vadd_def Vector3_def)


section \<open>applyForce\<close>

lemma applyForce_particle_frame:
  "applyForce_particle F i ps = Some ps' \<Longrightarrow> ps' = ps\<lparr>velocities := velocities ps'\<rparr>"
  by (auto simp add: applyForce_particle_def Let_def split: option.splits bind_splits)

lemma applyForce_frame_eq:
  assumes "applyForce F ps = Some ps'"
  shows "ps' = ps\<lparr>velocities := velocities ps'\<rparr>"
proof -
  have "for_each is (applyForce_particle F) s = Some s' \<Longrightarrow> s' = s\<lparr>velocities := velocities s'\<rparr>"
    for "is" s s'
  proof (induction "is" arbitrary: s)
    case Nil
    then show ?case by simp
  next
    case (Cons i "is")
    then obtain s1 where s1: "applyForce_particle F i s = Some s1"
      and rest: "for_each is (applyForce_particle F) s1 = Some s'"
      by (auto split: option.splits)
    have "s1 = s\<lparr>velocities := velocities s1\<rparr>"
      by (rule applyForce_particle_frame[OF s1])
    moreover have "s' = s1\<lparr>velocities := velocities s'\<rparr>"
      by (rule Cons.IH[OF rest])
    ultimately show ?case
      by (metis particle_system.surjective particle_system.update_convs(5))
  qed
  then show ?thesis
    using assms by (simp add: applyForce_def)
qed

lemma applyForce_particle_step:
  "i < length (velocities ps) \<Longrightarrow>
   applyForce_particle F i ps =
     Some (ps\<lparr>velocities := (velocities ps)[i := velocity_after F ps i]\<rparr>)"
  by (simp add: applyForce_particle_def velocity_after_def getPosition_def js_at_def Let_def
      split: option.splits)

lemma velocity_after_other:
  "j \<noteq> i \<Longrightarrow>
   velocity_after F (ps\<lparr>velocities := (velocities ps)[i := v]\<rparr>) j = velocity_after F ps j"
  by (simp add: velocity_after_def getPosition_def split: option.splits)

lemma applyForce_loop:
  "\<forall>j \<in> set is. j < length (velocities ps) \<Longrightarrow> distinct is \<Longrightarrow>
   \<exists>ps'. for_each is (applyForce_particle F) ps = Some ps' \<and>
     length (velocities ps') = length (velocities ps) \<and>
     (\<forall>j < length (velocities ps). velocities ps' ! j =
        (if j \<in> set is then velocity_after F ps j else velocities ps ! j))"
proof (induction "is" arbitrary: ps)
  case Nil
  then show ?case by simp
next
  case (Cons i "is")
  define ps1 where "ps1 = ps\<lparr>velocities := (velocities ps)[i := velocity_after F ps i]\<rparr>"
  have i: "i < length (velocities ps)" "i \<notin> set is"
    using Cons.prems by auto
  have step: "applyForce_particle F i ps = Some ps1"
    unfolding ps1_def by (rule applyForce_particle_step[OF i(1)])
  have len1: "length (velocities ps1) = length (velocities ps)"
    by (simp add: ps1_def)
  obtain ps' where rest: "for_each is (applyForce_particle F) ps1 = Some ps'"
    and len': "length (velocities ps') = length (velocities ps1)"
    and vs: "\<forall>j < length (velocities ps1). velocities ps' ! j =
        (if j \<in> set is then velocity_after F ps1 j else velocities ps1 ! j)"
    using Cons.IH[of ps1] Cons.prems len1 by auto
  have "velocities ps' ! j =
          (if j \<in> set (i # is) then velocity_after F ps j else velocities ps ! j)"
    if j: "j < length (velocities ps)" for j
  proof (cases "j = i")
    case True
    then show ?thesis
      using vs i j len1 by (simp add: ps1_def)
  next
    case False
    then show ?thesis
      using vs j len1 by (simp add: ps1_def velocity_after_other)
  qed
  then show ?case
    using step rest len' len1 by simp
qed

text \<open>
  With a velocity for every particle, \<open>applyForce\<close> throws nothing: it returns the system
  with new velocities and nothing else changed.
\<close>

lemma applyForce_result:
  assumes "particleCount ps \<le> length (velocities ps)"
  shows "\<exists>ps'. applyForce F ps = Some ps' \<and> ps' = ps\<lparr>velocities := velocities ps'\<rparr> \<and>
     length (velocities ps') = length (velocities ps) \<and>
     (\<forall>j < particleCount ps. velocities ps' ! j = velocity_after F ps j)"
proof -
  obtain ps' where r: "for_each [0..<particleCount ps] (applyForce_particle F) ps = Some ps'"
     "length (velocities ps') = length (velocities ps)"
     "\<forall>j < length (velocities ps). velocities ps' ! j =
        (if j \<in> set [0..<particleCount ps] then velocity_after F ps j else velocities ps ! j)"
    using applyForce_loop[of "[0..<particleCount ps]" ps F] assms by auto
  have "applyForce F ps = Some ps'"
    using r(1) by (simp add: applyForce_def)
  then show ?thesis
    using r(2,3) assms applyForce_frame_eq[of F ps ps'] by auto
qed

lemma applyForce_push_one_particle:
  "applyForce (push (Vector3 10 0 0)) one_particle =
     Some (one_particle\<lparr>velocities := [Vector3 5 0 0]\<rparr>)"
  by (simp add: one_particle_def push_def applyForce_def applyForce_particle_def js_at_def
      ta_get_def Vector3_of_def limitSpeed_def vlength_def vadd_def vnormalize_def
      multiplyScalar_def Vector3_def)

text \<open>
  Claim C9. A call of \<open>applyForce\<close> that returns leaves the positions, the colors and the
  sizes of all particles as they were, for every force function; and it does return when
  there is a velocity for every particle. Only the velocities are written.
\<close>

theorem applyForce_writes_velocities_only:
  "(particleCount ps \<le> length (velocities ps) \<longrightarrow> applyForce F ps \<noteq> None) \<and>
   (\<forall>ps'. applyForce F ps = Some ps' \<longrightarrow>
      positions ps' = positions ps \<and> customColor ps' = customColor ps \<and>
      sizes ps' = sizes ps \<and> (\<forall>i. getPosition ps' i = getPosition ps i))"
proof -
  have "positions ps' = positions ps \<and> customColor ps' = customColor ps \<and>
      sizes ps' = sizes ps \<and> (\<forall>i. getPosition ps' i = getPosition ps i)"
    if "applyForce F ps = Some ps'" for ps'
  proof -
    have e: "ps' = ps\<lparr>velocities := velocities ps'\<rparr>"
      by (rule applyForce_frame_eq[OF that])
    have "positions ps' = positions ps"
      by (subst e) simp
    moreover have "customColor ps' = customColor ps"
      by (subst e) simp
    moreover have "sizes ps' = sizes ps"
      by (subst e) simp
    ultimately show ?thesis
      by (simp add: getPosition_def)
  qed
  then show ?thesis
    using applyForce_result[of ps F] by auto
qed

text \<open>The theorem at one particle at rest that is pushed along \<open>x\<close>.\<close>

theorem applyForce_writes_velocities_only_witness:
  "particleCount one_particle \<le> length (velocities one_particle) \<and>
   applyForce (push (Vector3 10 0 0)) one_particle =
     Some (one_particle\<lparr>velocities := [Vector3 5 0 0]\<rparr>) \<and>
   positions (one_particle\<lparr>velocities := [Vector3 5 0 0]\<rparr>) = positions one_particle \<and>
   customColor (one_particle\<lparr>velocities := [Vector3 5 0 0]\<rparr>) = customColor one_particle \<and>
   sizes (one_particle\<lparr>velocities := [Vector3 5 0 0]\<rparr>) = sizes one_particle"
  using applyForce_writes_velocities_only[of one_particle "push (Vector3 10 0 0)"]
    applyForce_push_one_particle
  by (simp add: one_particle_def)

















section \<open>update\<close>














section \<open>Attraction and repulsion\<close>







section \<open>The force of the atom mode\<close>

lemma detect_not_THUMB_UP: "detect lms d = Some (r, d') \<Longrightarrow> gtype r \<noteq> THUMB_UP"
  by (auto simp add: detect_def debounce_def Let_def rawGesture_def
      split: option.splits if_splits bind_splits)

text \<open>
  Claim C4, as the code has it. With a hand position present, the atom mode adds the
  repulsion of strength 8.0 away from the hand's world position to the force of a
  particle when the gesture is \<open>THUMB_UP\<close>, a gesture that \<open>detect\<close> never returns. With
  \<open>FULL_OPEN\<close> the force is the one without a hand: the pull to the orbit, the orbital
  force and the drift.
\<close>

theorem atomForce_repels_on_thumb_up:
  "atomForce nucleusPosition orbitRadius (Some hand) \<lparr>gtype = THUMB_UP, confidence = c\<rparr>
      repelRnd driftRnd position =
     vadd (atomForce nucleusPosition orbitRadius None g repelRnd' driftRnd position)
       (repulsionForce position (screenToWorld (vx hand) (vy hand) 0) 8.0 repelRnd) \<and>
   atomForce nucleusPosition orbitRadius (Some hand) \<lparr>gtype = FULL_OPEN, confidence = c\<rparr>
      repelRnd driftRnd position =
     atomForce nucleusPosition orbitRadius None g repelRnd' driftRnd position"
  by (simp add: atomForce_def Let_def vadd_swap_right)

text \<open>
  Claim C4 as the specification states it fails. A particle at \<open>(1, 0, 0)\<close> on the orbit
  of radius 2 around a nucleus at the origin, the hand at the centre of the image (the
  origin of the world) and the gesture \<open>FULL_OPEN\<close>: the force is \<open>(0.45, -0.8, 0)\<close>, the
  same as without a hand, and the repulsion \<open>(80 / 11, 0, 0)\<close> is not part of it.
\<close>

theorem atomForce_ignores_full_open:
  "atomForce (Vector3 0 0 0) 2 (Some (Vector3 0.5 0.5 0))
      \<lparr>gtype = FULL_OPEN, confidence = 0.9\<rparr> (0, 0, 0) (0.5, 0.5, 0.5) (Vector3 1 0 0) =
     Vector3 0.45 (-0.8) 0 \<and>
   atomForce (Vector3 0 0 0) 2 None
      \<lparr>gtype = FULL_OPEN, confidence = 0.9\<rparr> (0, 0, 0) (0.5, 0.5, 0.5) (Vector3 1 0 0) =
     Vector3 0.45 (-0.8) 0 \<and>
   repulsionForce (Vector3 1 0 0) (screenToWorld 0.5 0.5 0) 8.0 (0, 0, 0) =
     Vector3 (80 / 11) 0 0 \<and>
   atomForce (Vector3 0 0 0) 2 (Some (Vector3 0.5 0.5 0))
      \<lparr>gtype = FULL_OPEN, confidence = 0.9\<rparr> (0, 0, 0) (0.5, 0.5, 0.5) (Vector3 1 0 0) \<noteq>
     vadd (atomForce (Vector3 0 0 0) 2 None
             \<lparr>gtype = FULL_OPEN, confidence = 0.9\<rparr> (0, 0, 0) (0.5, 0.5, 0.5) (Vector3 1 0 0))
       (repulsionForce (Vector3 1 0 0) (screenToWorld 0.5 0.5 0) 8.0 (0, 0, 0))"
  by (simp add: atomForce_def Let_def repulsionForce_def orbitalForce_def randomDrift_def
      screenToWorld_def subVectors_def vlength_def vnormalize_def multiplyScalar_def vadd_def
      Vector3_def)

end
